theory Spec2Isabelle
  imports Complex_Main "HOL-Library.Sublist"
begin

section \<open>uriproj: projections from coordinate reference system URIs\<close>

text \<open>
  The module under verification is the \<^verbatim>\<open>index.js\<close> of uriproj with the functions
  \<^verbatim>\<open>get\<close>, \<^verbatim>\<open>load\<close>, \<^verbatim>\<open>set\<close>, \<^verbatim>\<open>crsUriToEPSG\<close> and \<^verbatim>\<open>reverseAxes\<close>. It keeps one
  module-level object \<^verbatim>\<open>projCache\<close> from URI strings to projection objects. The library
  \<^verbatim>\<open>proj4\<close> and the function \<^verbatim>\<open>fetch\<close> are external: what they return is a parameter
  of the model.
\<close>

subsection \<open>Values\<close>

text \<open>
  A coordinate array is a JavaScript array of numbers. The module never computes with the
  numbers, it only moves them, so their type is the parameter \<open>'n\<close>. Reading an array
  outside its range gives \<^verbatim>\<open>undefined\<close> in JavaScript, which therefore is a value of its own.
\<close>

datatype 'n jsval = Undefined | Num 'n

type_synonym 'n array = "'n jsval list"

text \<open>\<^verbatim>\<open>pos[i]\<close>\<close>

definition idx :: "'n array \<Rightarrow> nat \<Rightarrow> 'n jsval" where
  "idx pos i = (if i < length pos then pos ! i else Undefined)"

text \<open>
  The typedef \<^verbatim>\<open>Projection\<close>: an object with the two functions \<^verbatim>\<open>forward\<close> and
  \<^verbatim>\<open>inverse\<close>, each from an array of numbers to an array of numbers. The functions are
  modelled by the arrays they return (no sharing between the argument and the result).
  As an object, a projection is an ordinary one, as an object literal is and as
  \<^verbatim>\<open>reverseAxes\<close> returns it: its own properties are the two writable data properties
  \<^verbatim>\<open>forward\<close> and \<^verbatim>\<open>inverse\<close>, and its prototype is \<^verbatim>\<open>Object.prototype\<close>.
\<close>

record 'n Projection =
  forward :: "'n array \<Rightarrow> 'n array"
  inverse' :: "'n array \<Rightarrow> 'n array"

text \<open>
  What reading a property of \<^verbatim>\<open>projCache\<close> can give: a projection object that was
  stored, a function that is a property of a projection object, a function that is a
  property of \<^verbatim>\<open>Object.prototype\<close> (given by the name of the property), and
  \<^verbatim>\<open>Object.prototype\<close> itself. \<^verbatim>\<open>undefined\<close> is the \<open>None\<close> of an option.
\<close>

datatype 'n propval =
    ProjectionObject "'n Projection"
  | FunctionObject "'n array \<Rightarrow> 'n array"
  | Builtin string
  | ObjectPrototype

text \<open>
  What a \<^verbatim>\<open>throw\<close> or a rejected promise carries: \<^verbatim>\<open>new Error(message)\<close>, the
  \<^verbatim>\<open>ReferenceError\<close> of the language for an identifier that is declared nowhere, and
  the \<^verbatim>\<open>TypeError\<close> with which \<^verbatim>\<open>fetch\<close> rejects on a network failure.
\<close>

datatype error = Error string | ReferenceError string | TypeError string

text \<open>
  The second argument of \<^verbatim>\<open>set\<close> is typed \<^verbatim>\<open>string|Projection\<close> and may be missing
  (\<^verbatim>\<open>undefined\<close> or \<^verbatim>\<open>null\<close>).
\<close>

datatype 'n ProjSource = Absent | Text string | Ready "'n Projection"

text \<open>\<^verbatim>\<open>!proj\<close>: \<^verbatim>\<open>undefined\<close>, \<^verbatim>\<open>null\<close> and the empty string are falsy, an object never is.\<close>

fun falsy :: "'n ProjSource \<Rightarrow> bool" where
  "falsy Absent = True"
| "falsy (Text str) = (str = [])"
| "falsy (Ready p) = False"

text \<open>The options object of \<^verbatim>\<open>set\<close>; its default \<^verbatim>\<open>{}\<close> has no \<^verbatim>\<open>reverseAxes\<close>, which is falsy.\<close>

record Options =
  opt_reverseAxes :: bool

definition default_options :: Options where
  "default_options = \<lparr>opt_reverseAxes = False\<rparr>"

text \<open>
  The response of \<^verbatim>\<open>fetch\<close>: the fields \<^verbatim>\<open>ok\<close> and \<^verbatim>\<open>status\<close>, and what the promise
  of \<^verbatim>\<open>response.text()\<close> settles to.
\<close>

record Response =
  ok :: bool
  status :: nat
  response_text :: "error + string"

text \<open>
  The module state. The object \<^verbatim>\<open>projCache\<close> is a plain object: \<open>projCache\<close> are its
  own properties, a map from URI strings to the projections stored, and \<open>prototype\<close> is
  its prototype, \<open>None\<close> as long as that is \<^verbatim>\<open>Object.prototype\<close>, as for every object
  literal, and \<open>Some p\<close> once the projection object \<open>p\<close> has taken its place. As an
  observation of the environment, \<open>requests\<close> are the URLs that have been passed to
  \<^verbatim>\<open>fetch\<close>, oldest first.
\<close>

record 'n State =
  projCache :: "string \<rightharpoonup> 'n Projection"
  prototype :: "'n Projection option"
  requests :: "string list"

text \<open>\<^verbatim>\<open>let projCache = {}\<close>, before any request.\<close>

definition empty_state :: "'n State" where
  "empty_state = \<lparr>projCache = Map.empty, prototype = None, requests = []\<rparr>"

subsection \<open>Properties of a plain object\<close>

text \<open>
  The properties of \<^verbatim>\<open>Object.prototype\<close>, which nothing in the module changes: the
  functions below, all writable data properties, and the accessor \<^verbatim>\<open>__proto__\<close>, whose
  getter returns the prototype of the object it is read on and whose setter replaces it by
  the object assigned.
\<close>

definition Object_prototype_functions :: "string list" where
  "Object_prototype_functions =
     [''constructor'', ''hasOwnProperty'', ''isPrototypeOf'', ''propertyIsEnumerable'',
      ''toLocaleString'', ''toString'', ''valueOf'', ''__defineGetter__'',
      ''__defineSetter__'', ''__lookupGetter__'', ''__lookupSetter__'']"

text \<open>
  Reading the property \<open>name\<close> along the prototype chain of an object whose prototype is
  \<open>proto\<close>: first the own properties of a projection object that is the prototype, then
  \<^verbatim>\<open>Object.prototype\<close>.
\<close>

definition ownOfProjection :: "'n Projection \<Rightarrow> string \<Rightarrow> 'n propval option" where
  "ownOfProjection p name =
     (if name = ''forward'' then Some (FunctionObject (forward p))
      else if name = ''inverse'' then Some (FunctionObject (inverse' p))
      else None)"

definition ofObjectPrototype :: "'n Projection option \<Rightarrow> string \<Rightarrow> 'n propval option" where
  "ofObjectPrototype proto name =
     (if name = ''__proto__''
      then Some (case proto of None \<Rightarrow> ObjectPrototype | Some p \<Rightarrow> ProjectionObject p)
      else if name \<in> set Object_prototype_functions then Some (Builtin name)
      else None)"

definition inherited :: "'n Projection option \<Rightarrow> string \<Rightarrow> 'n propval option" where
  "inherited proto name =
     (case proto of
        None \<Rightarrow> ofObjectPrototype proto name
      | Some p \<Rightarrow>
          (case ownOfProjection p name of
             Some v \<Rightarrow> Some v
           | None \<Rightarrow> ofObjectPrototype proto name))"

text \<open>\<^verbatim>\<open>projCache[name]\<close>, read: an own property first, then the prototype chain.\<close>

definition getProperty :: "'n State \<Rightarrow> string \<Rightarrow> 'n propval option" where
  "getProperty s name =
     (case projCache s name of
        Some p \<Rightarrow> Some (ProjectionObject p)
      | None \<Rightarrow> inherited (prototype s) name)"

text \<open>\<^verbatim>\<open>name in projCache\<close>: own and inherited properties count.\<close>

definition hasProperty :: "'n State \<Rightarrow> string \<Rightarrow> bool" where
  "hasProperty s name =
     (projCache s name \<noteq> None
      \<or> (prototype s \<noteq> None \<and> (name = ''forward'' \<or> name = ''inverse''))
      \<or> name = ''__proto__''
      \<or> name \<in> set Object_prototype_functions)"

text \<open>
  \<^verbatim>\<open>projCache[name] = p\<close> for a projection object \<open>p\<close>. An own property is overwritten.
  Otherwise the name \<^verbatim>\<open>__proto__\<close> is found as the accessor of \<^verbatim>\<open>Object.prototype\<close>,
  whose setter makes \<open>p\<close> the prototype and adds no property; every other name, also one
  that is inherited as a writable data property, becomes an own property.
\<close>

definition putProperty :: "'n State \<Rightarrow> string \<Rightarrow> 'n Projection \<Rightarrow> 'n State" where
  "putProperty s name p =
     (if projCache s name = None \<and> name = ''__proto__'' then s\<lparr>prototype := Some p\<rparr>
      else s\<lparr>projCache := (projCache s)(name \<mapsto> p)\<rparr>)"

subsection \<open>Strings\<close>

text \<open>A number in a template literal or in \<^verbatim>\<open>+\<close> with a string: its decimal digits.\<close>

definition digit :: "nat \<Rightarrow> char" where
  "digit d = ''0123456789'' ! d"

fun decimal :: "nat \<Rightarrow> string" where
  "decimal n = (if n < 10 then [digit n] else decimal (n div 10) @ [digit (n mod 10)])"

declare decimal.simps [simp del]

text \<open>
  \<^verbatim>\<open>s.indexOf(p)\<close>: the least position at which \<open>p\<close> occurs in \<open>s\<close>, and \<open>-1\<close> when
  there is none. The search runs from the left, \<open>k\<close> being the position reached.
\<close>

fun indexOf_from :: "string \<Rightarrow> string \<Rightarrow> nat \<Rightarrow> int" where
  "indexOf_from [] p k = (if p = [] then int k else - 1)"
| "indexOf_from (c # s) p k =
     (if prefix p (c # s) then int k else indexOf_from s p (Suc k))"

definition indexOf :: "string \<Rightarrow> string \<Rightarrow> int" where
  "indexOf s p = indexOf_from s p 0"

text \<open>\<^verbatim>\<open>s.substr(start)\<close> with one argument: the rest of the string from \<open>start\<close>.\<close>

definition substr :: "string \<Rightarrow> nat \<Rightarrow> string" where
  "substr s start = drop start s"

subsection \<open>Constants of the module\<close>

definition ROOT_PREFIX :: string where
  "ROOT_PREFIX = ''http://www.opengis.net/def/crs/''"

definition OGC_PREFIX :: string where
  "OGC_PREFIX = ROOT_PREFIX @ ''OGC/''"

definition EPSG_PREFIX :: string where
  "EPSG_PREFIX = ROOT_PREFIX @ ''EPSG/0/''"

text \<open>
  The own keys of the object \<^verbatim>\<open>needsAxesReordering\<close>, and the test
  \<^verbatim>\<open>crsUri in needsAxesReordering\<close>, which is also true of the names that this object
  literal inherits.
\<close>

definition needsAxesReordering :: "string list" where
  "needsAxesReordering = [EPSG_PREFIX @ decimal 4326]"

definition in_needsAxesReordering :: "string \<Rightarrow> bool" where
  "in_needsAxesReordering crsUri =
     (crsUri \<in> set needsAxesReordering \<or> crsUri = ''__proto__''
      \<or> crsUri \<in> set Object_prototype_functions)"

subsection \<open>Functions of the module\<close>

text \<open>
  \<^verbatim>\<open>reverseAxes(proj)\<close>: \<^verbatim>\<open>forward\<close> reverses the array that \<^verbatim>\<open>proj.forward\<close> returns,
  \<^verbatim>\<open>inverse\<close> calls \<^verbatim>\<open>proj.inverse\<close> on the new array \<^verbatim>\<open>[pos[1], pos[0]]\<close>.
\<close>

definition reverseAxes :: "'n Projection \<Rightarrow> 'n Projection" where
  "reverseAxes proj =
     \<lparr>forward = (\<lambda>pos. rev (forward proj pos)),
      inverse' = (\<lambda>pos. inverse' proj [idx pos 1, idx pos 0])\<rparr>"

text \<open>
  \<^verbatim>\<open>flipLatLon(proj)\<close>, the name of the same function in the earlier revision of the
  module.
\<close>

definition flipLatLon :: "'n Projection \<Rightarrow> 'n Projection" where
  "flipLatLon proj =
     \<lparr>forward = (\<lambda>pos. rev (forward proj pos)),
      inverse' = (\<lambda>pos. inverse' proj [idx pos 1, idx pos 0])\<rparr>"

text \<open>\<^verbatim>\<open>get(crsUri)\<close>: \<open>None\<close> is \<^verbatim>\<open>undefined\<close>.\<close>

definition get :: "'n State \<Rightarrow> string \<Rightarrow> 'n propval option" where
  "get s crsUri = getProperty s crsUri"

text \<open>
  \<^verbatim>\<open>set(crsUri, proj, options)\<close>. In the branch for a string the source evaluates
  \<^verbatim>\<open>proj4(proj4string)\<close>. The identifier \<^verbatim>\<open>proj4string\<close> is no parameter of \<^verbatim>\<open>set\<close> and
  is declared nowhere in the module, so evaluating the argument throws a
  \<^verbatim>\<open>ReferenceError\<close> before \<^verbatim>\<open>proj4\<close> is called; the rest of the branch (the test of
  \<^verbatim>\<open>proj4obj\<close>, the call of \<^verbatim>\<open>reverseAxes\<close>) and the assignment to the cache are not
  reached. The case \<open>Absent\<close> below is the falsy one that the first test has answered.
\<close>

definition set' ::
  "string \<Rightarrow> 'n ProjSource \<Rightarrow> Options \<Rightarrow> 'n State \<Rightarrow> (error + 'n Projection) \<times> 'n State" where
  "set' crsUri proj options s =
     (if crsUri = [] \<or> falsy proj then (Inl (Error ''crsUri and proj cannot be empty''), s)
      else (case proj of
              Text str \<Rightarrow> (Inl (ReferenceError ''proj4string is not defined''), s)
            | Ready p \<Rightarrow> (Inr p, putProperty s crsUri p)
            | Absent \<Rightarrow> (Inl (Error ''crsUri and proj cannot be empty''), s)))"

text \<open>\<^verbatim>\<open>crsUriToEPSG(uri)\<close>\<close>

definition crsUriToEPSG :: "string \<Rightarrow> error + string" where
  "crsUriToEPSG uri =
     (if indexOf uri EPSG_PREFIX = 0 then Inr (substr uri (length EPSG_PREFIX))
      else Inl (Error (''Unsupported CRS URI: '' @ uri)))"

text \<open>
  \<^verbatim>\<open>load(crsUri)\<close>. The promise that \<^verbatim>\<open>load\<close> returns is modelled by what it settles to:
  \<open>Inr\<close> the value it is fulfilled with, \<open>Inl\<close> the reason it is rejected with; the
  exception that \<^verbatim>\<open>crsUriToEPSG\<close> throws before any promise exists is an \<open>Inl\<close> too.
  The parameter \<open>fetch\<close> is the network: for a URL, the response, or the reason of the
  rejection. Calling it is recorded in \<open>requests\<close>. A promise is fulfilled with whatever
  \<^verbatim>\<open>projCache[crsUri]\<close> reads, or with the projection object that \<^verbatim>\<open>set\<close> returns.
\<close>

definition load ::
  "(string \<Rightarrow> error + Response) \<Rightarrow> string \<Rightarrow> 'n State
     \<Rightarrow> (error + 'n propval option) \<times> 'n State" where
  "load fetch crsUri s =
     (if hasProperty s crsUri then (Inr (getProperty s crsUri), s)
      else
          (case crsUriToEPSG crsUri of
             Inl e \<Rightarrow> (Inl e, s)
           | Inr epsg \<Rightarrow>
               (let url = ''http://epsg.io/'' @ epsg @ ''.proj4'';
                    s1 = s\<lparr>requests := requests s @ [url]\<rparr>
                in case fetch url of
                     Inl e \<Rightarrow> (Inl e, s1)
                   | Inr response \<Rightarrow>
                       if \<not> ok response
                       then (Inl (Error (''HTTP response code: '' @ decimal (status response))), s1)
                       else (case response_text response of
                               Inl e \<Rightarrow> (Inl e, s1)
                             | Inr proj4string \<Rightarrow>
                                 (case set' crsUri (Text proj4string)
                                         \<lparr>opt_reverseAxes = in_needsAxesReordering crsUri\<rparr> s1 of
                                    (Inl e, s2) \<Rightarrow> (Inl e, s2)
                                  | (Inr p, s2) \<Rightarrow> (Inr (Some (ProjectionObject p)), s2))))))"

text \<open>
  The statements that run when the module is loaded: the cache starts empty and the two
  built-in projections are stored. \<open>LONLAT\<close> is what the external call
  \<^verbatim>\<open>proj4('+proj=longlat +datum=WGS84 +no_defs')\<close> returned. An exception would end the
  loading of the module.
\<close>

definition init :: "'n Projection \<Rightarrow> error + 'n State" where
  "init LONLAT =
     (case set' (OGC_PREFIX @ ''1.3/CRS84'') (Ready LONLAT) default_options empty_state of
        (Inl e, s1) \<Rightarrow> Inl e
      | (Inr p1, s1) \<Rightarrow>
          (case set' (EPSG_PREFIX @ decimal 4979) (Ready (reverseAxes LONLAT)) default_options s1 of
             (Inl e, s2) \<Rightarrow> Inl e
           | (Inr p2, s2) \<Rightarrow> Inr s2))"

text \<open>
  What \<^verbatim>\<open>get\<close> returns for the URI of EPSG 4979 when the module has just been loaded.
\<close>

definition entry_EPSG4979 :: "'n Projection \<Rightarrow> 'n propval option" where
  "entry_EPSG4979 LONLAT =
     (case init LONLAT of
        Inl e \<Rightarrow> None
      | Inr s \<Rightarrow> get s (EPSG_PREFIX @ decimal 4979))"

subsection \<open>Sample inputs\<close>

text \<open>The identity on coordinate arrays, as the longitude/latitude projection of WGS84.\<close>

definition sample_identity :: "int Projection" where
  "sample_identity = \<lparr>forward = (\<lambda>pos. pos), inverse' = (\<lambda>pos. pos)\<rparr>"

text \<open>A projection whose inverse is right at the pair \<open>[1, 2]\<close> only.\<close>

definition sample_partial :: "int Projection" where
  "sample_partial =
     \<lparr>forward = (\<lambda>pos. pos),
      inverse' = (\<lambda>pos. if pos = [Num 1, Num 2] then pos else [Num 0, Num 0])\<rparr>"

text \<open>
  A longitude/latitude projection that converts degrees to radians and back in double
  precision, as \<^verbatim>\<open>proj4\<close> does, is not the identity at every pair: at latitude 3 the
  product \<^verbatim>\<open>3 * D2R * R2D\<close> is the double \<^verbatim>\<open>3.0000000000000004\<close>, that is \<open>3 + 1 / 2 ^ 51\<close>,
  while 0, -71 and 41 come back as they are. \<open>sample_degrees\<close> has this value at \<open>[0, 3]\<close>
  and returns every other array unchanged.
\<close>

definition sample_degrees :: "rat Projection" where
  "sample_degrees =
     \<lparr>forward = (\<lambda>pos. if pos = [Num 0, Num 3] then [Num 0, Num (3 + 1 / 2 ^ 51)] else pos),
      inverse' = (\<lambda>pos. pos)\<rparr>"

text \<open>A registry that knows no code, and one that answers every request with a definition.\<close>

definition sample_not_found :: "string \<Rightarrow> error + Response" where
  "sample_not_found url = Inr \<lparr>ok = False, status = 404, response_text = Inr ''Not found''\<rparr>"

definition sample_found :: "string \<Rightarrow> error + Response" where
  "sample_found url =
     Inr \<lparr>ok = True, status = 200, response_text = Inr ''+proj=longlat +datum=WGS84 +no_defs''\<rparr>"

section \<open>Strings and the URI parser\<close>

lemma decimal_404: "decimal 404 = ''404''"
  by (simp add: decimal.simps digit_def)

lemma decimal_4979: "decimal 4979 = ''4979''"
  by (simp add: decimal.simps digit_def)

text \<open>A search from position \<open>k\<close> finds nothing before \<open>k\<close>.\<close>

lemma indexOf_from_range: "indexOf_from s p k = - 1 \<or> int k \<le> indexOf_from s p k"
  by (induction s arbitrary: k) (auto, force)

lemma indexOf_from_start: "indexOf_from s p k = int k \<longleftrightarrow> prefix p s"
proof (cases s)
  case Nil
  then show ?thesis by auto
next
  case (Cons c t)
  show ?thesis
  proof (cases "prefix p (c # t)")
    case True
    with Cons show ?thesis by simp
  next
    case False
    have "indexOf_from t p (Suc k) \<noteq> int k"
      using indexOf_from_range [of t p "Suc k"] by auto
    with False Cons show ?thesis by simp
  qed
qed

lemma indexOf_zero: "indexOf s p = 0 \<longleftrightarrow> prefix p s"
  using indexOf_from_start [of s p 0] by (simp add: indexOf_def)

lemma crsUriToEPSG_prefix:
  "prefix EPSG_PREFIX uri \<Longrightarrow> crsUriToEPSG uri = Inr (drop (length EPSG_PREFIX) uri)"
  by (simp add: crsUriToEPSG_def indexOf_zero substr_def)

lemma crsUriToEPSG_code: "crsUriToEPSG (EPSG_PREFIX @ code) = Inr code"
  using crsUriToEPSG_prefix [of "EPSG_PREFIX @ code"] by simp

lemma crsUriToEPSG_other:
  "\<not> prefix EPSG_PREFIX uri \<Longrightarrow> crsUriToEPSG uri = Inl (Error (''Unsupported CRS URI: '' @ uri))"
  by (simp add: crsUriToEPSG_def indexOf_zero)

lemma EPSG_PREFIX_text: "EPSG_PREFIX = ''http://www.opengis.net/def/crs/EPSG/0/''"
  by (simp add: EPSG_PREFIX_def ROOT_PREFIX_def)

lemma CRS84_no_EPSG: "\<not> prefix EPSG_PREFIX (OGC_PREFIX @ ''1.3/CRS84'')"
  by (simp add: EPSG_PREFIX_def OGC_PREFIX_def ROOT_PREFIX_def)

text \<open>
  C3. \<open>EPSG_PREFIX\<close> is the string \<^verbatim>\<open>http://www.opengis.net/def/crs/EPSG/0/\<close>. For a URI
  that begins with it, \<open>crsUriToEPSG\<close> returns the rest of the URI after the prefix. For
  every other string it fails with the error whose message names the string; the CRS84 URI
  is such a string.
\<close>

theorem crsUriToEPSG_contract:
  "EPSG_PREFIX = ''http://www.opengis.net/def/crs/EPSG/0/''
   \<and> (prefix EPSG_PREFIX uri \<longrightarrow> crsUriToEPSG uri = Inr (drop (length EPSG_PREFIX) uri))
   \<and> crsUriToEPSG (EPSG_PREFIX @ code) = Inr code
   \<and> (\<not> prefix EPSG_PREFIX uri \<longrightarrow>
        crsUriToEPSG uri = Inl (Error (''Unsupported CRS URI: '' @ uri)))
   \<and> crsUriToEPSG (OGC_PREFIX @ ''1.3/CRS84'')
       = Inl (Error (''Unsupported CRS URI: '' @ OGC_PREFIX @ ''1.3/CRS84''))"
  using CRS84_no_EPSG
  by (simp add: EPSG_PREFIX_text [symmetric] crsUriToEPSG_prefix crsUriToEPSG_code
      crsUriToEPSG_other del: append_assoc)

theorem crsUriToEPSG_contract_witness:
  "prefix EPSG_PREFIX ''http://www.opengis.net/def/crs/EPSG/0/27700''
   \<and> crsUriToEPSG ''http://www.opengis.net/def/crs/EPSG/0/27700'' = Inr ''27700''
   \<and> \<not> prefix EPSG_PREFIX ''urn:ogc:def:crs:EPSG::27700''
   \<and> crsUriToEPSG ''urn:ogc:def:crs:EPSG::27700''
       = Inl (Error ''Unsupported CRS URI: urn:ogc:def:crs:EPSG::27700'')"
proof -
  have p: "prefix EPSG_PREFIX ''http://www.opengis.net/def/crs/EPSG/0/27700''"
    by (simp add: EPSG_PREFIX_def ROOT_PREFIX_def)
  have q: "\<not> prefix EPSG_PREFIX ''urn:ogc:def:crs:EPSG::27700''"
    by (simp add: EPSG_PREFIX_def ROOT_PREFIX_def)
  have "crsUriToEPSG ''http://www.opengis.net/def/crs/EPSG/0/27700''
          = Inr (drop (length EPSG_PREFIX) ''http://www.opengis.net/def/crs/EPSG/0/27700'')"
    using p crsUriToEPSG_contract [of "''http://www.opengis.net/def/crs/EPSG/0/27700''" "[]"]
    by blast
  then have a: "crsUriToEPSG ''http://www.opengis.net/def/crs/EPSG/0/27700'' = Inr ''27700''"
    by (simp add: EPSG_PREFIX_def ROOT_PREFIX_def)
  have b: "crsUriToEPSG ''urn:ogc:def:crs:EPSG::27700''
             = Inl (Error (''Unsupported CRS URI: '' @ ''urn:ogc:def:crs:EPSG::27700''))"
    using q crsUriToEPSG_contract [of "''urn:ogc:def:crs:EPSG::27700''" "[]"] by blast
  from p q a b show ?thesis by simp
qed

section \<open>The axis corrector\<close>

lemma forward_reverseAxes: "forward (reverseAxes P) pos = rev (forward P pos)"
  by (simp add: reverseAxes_def)

lemma inverse_reverseAxes_pair: "inverse' (reverseAxes P) [a, b] = inverse' P [b, a]"
  by (simp add: reverseAxes_def idx_def)

lemma flipLatLon_reverseAxes: "flipLatLon P = reverseAxes P"
  by (simp add: flipLatLon_def reverseAxes_def)

text \<open>
  C2. For every projection \<open>P\<close> and every coordinate pair \<open>[a, b]\<close>, the forward function
  of \<open>reverseAxes P\<close> returns the reversal of what \<open>P\<close>'s forward function returns (for a
  pair \<open>[x, y]\<close> that is \<open>[y, x]\<close>), and its inverse function returns what \<open>P\<close>'s inverse
  function returns on the reversed pair \<open>[b, a]\<close>. \<open>flipLatLon\<close> is the same function.
\<close>

theorem reverseAxes_contract:
  "forward (reverseAxes P) [a, b] = rev (forward P [a, b])
   \<and> inverse' (reverseAxes P) [a, b] = inverse' P (rev [a, b])
   \<and> flipLatLon P = reverseAxes P"
  by (simp add: forward_reverseAxes inverse_reverseAxes_pair flipLatLon_reverseAxes)

theorem reverseAxes_contract_witness:
  "forward (reverseAxes sample_identity) [Num (- 71), Num 41] = [Num 41, Num (- 71)]
   \<and> inverse' (reverseAxes sample_partial) [Num 2, Num 1] = [Num 1, Num 2]"
  using reverseAxes_contract [of sample_identity "Num (- 71)" "Num 41"]
    reverseAxes_contract [of sample_partial "Num 2" "Num 1"]
  by (simp add: sample_identity_def sample_partial_def)

text \<open>
  C9. Applying \<open>reverseAxes\<close> twice gives back the behaviour of the projection: the forward
  function agrees with that of \<open>P\<close> on every array, the inverse function on every
  coordinate pair.
\<close>

theorem reverseAxes_involution:
  "forward (reverseAxes (reverseAxes P)) pos = forward P pos
   \<and> inverse' (reverseAxes (reverseAxes P)) [a, b] = inverse' P [a, b]"
  by (simp add: forward_reverseAxes inverse_reverseAxes_pair)

theorem reverseAxes_involution_witness:
  "forward (reverseAxes (reverseAxes sample_partial)) [Num 5, Num 7] = [Num 5, Num 7]
   \<and> inverse' (reverseAxes (reverseAxes sample_partial)) [Num 1, Num 2] = [Num 1, Num 2]"
  using reverseAxes_involution [of sample_partial "[Num 5, Num 7]" "Num 1" "Num 2"]
  by (simp add: sample_partial_def)

text \<open>
  C10, as stated, fails in the direction forward after inverse: \<open>sample_partial\<close> satisfies
  \<open>forward (inverse [1, 2]) = [1, 2]\<close>, but the inverse function of its reversal reads
  \<open>[2, 1]\<close>, where \<open>sample_partial\<close> answers \<open>[0, 0]\<close>.
\<close>

theorem reverseAxes_round_trip_counterexample:
  "\<not> (forward sample_partial (inverse' sample_partial [Num 1, Num 2]) = [Num 1, Num 2]
      \<longrightarrow> forward (reverseAxes sample_partial)
            (inverse' (reverseAxes sample_partial) [Num 1, Num 2]) = [Num 1, Num 2])"
  by (simp add: sample_partial_def reverseAxes_def idx_def)

text \<open>
  C10, amended. If \<open>P\<close>'s forward function returns a pair at \<open>[a, b]\<close> and \<open>P\<close>'s inverse
  function takes it back to \<open>[a, b]\<close>, then so does the reversal of \<open>P\<close>. In the other
  direction the round trip of \<open>P\<close> is needed at the reversed pair: if
  \<open>forward (inverse [b, a]) = [b, a]\<close> for \<open>P\<close>, then for the reversal of \<open>P\<close>
  \<open>forward (inverse [a, b]) = [a, b]\<close>.
\<close>

theorem reverseAxes_round_trip:
  "(forward P [a, b] = [x, y] \<longrightarrow> inverse' P (forward P [a, b]) = [a, b] \<longrightarrow>
      inverse' (reverseAxes P) (forward (reverseAxes P) [a, b]) = [a, b])
   \<and> (forward P (inverse' P [b, a]) = [b, a] \<longrightarrow>
        forward (reverseAxes P) (inverse' (reverseAxes P) [a, b]) = [a, b])"
  by (simp add: forward_reverseAxes inverse_reverseAxes_pair)

theorem reverseAxes_round_trip_witness:
  "forward sample_identity [Num 1, Num 2] = [Num 1, Num 2]
   \<and> inverse' sample_identity (forward sample_identity [Num 1, Num 2]) = [Num 1, Num 2]
   \<and> inverse' (reverseAxes sample_identity) (forward (reverseAxes sample_identity) [Num 1, Num 2])
       = [Num 1, Num 2]
   \<and> forward sample_identity (inverse' sample_identity [Num 2, Num 1]) = [Num 2, Num 1]
   \<and> forward (reverseAxes sample_identity) (inverse' (reverseAxes sample_identity) [Num 1, Num 2])
       = [Num 1, Num 2]"
proof -
  have a: "forward sample_identity [Num 1, Num 2] = [Num 1, Num 2]"
    by (simp add: sample_identity_def)
  have b: "inverse' sample_identity (forward sample_identity [Num 1, Num 2]) = [Num 1, Num 2]"
    by (simp add: sample_identity_def)
  have c: "forward sample_identity (inverse' sample_identity [Num 2, Num 1]) = [Num 2, Num 1]"
    by (simp add: sample_identity_def)
  from reverseAxes_round_trip [of sample_identity "Num 1" "Num 2" "Num 1" "Num 2"] a b c
  show ?thesis by blast
qed

section \<open>The cache object\<close>

lemma hasProperty_getProperty: "hasProperty s name \<longleftrightarrow> getProperty s name \<noteq> None"
  by (auto simp: hasProperty_def getProperty_def inherited_def ownOfProjection_def
      ofObjectPrototype_def split: option.splits)

lemma getProperty_own:
  "projCache s name = Some p \<Longrightarrow> getProperty s name = Some (ProjectionObject p)"
  by (simp add: getProperty_def)

lemma hasProperty_own: "projCache s name = Some p \<Longrightarrow> hasProperty s name"
  by (simp add: hasProperty_def)

text \<open>No inherited name begins with the prefix of the EPSG URIs.\<close>

lemma inherited_EPSG: "inherited proto (EPSG_PREFIX @ code) = None"
  by (simp add: inherited_def ownOfProjection_def ofObjectPrototype_def
      Object_prototype_functions_def EPSG_PREFIX_def ROOT_PREFIX_def split: option.splits)

lemma getProperty_EPSG:
  "getProperty s (EPSG_PREFIX @ code) = map_option ProjectionObject (projCache s (EPSG_PREFIX @ code))"
  by (simp add: getProperty_def inherited_EPSG split: option.splits)

lemma hasProperty_EPSG:
  "hasProperty s (EPSG_PREFIX @ code) \<longleftrightarrow> projCache s (EPSG_PREFIX @ code) \<noteq> None"
  by (simp add: hasProperty_getProperty getProperty_EPSG)

text \<open>After an assignment the name reads as the projection assigned.\<close>

lemma getProperty_putProperty:
  "getProperty (putProperty s name p) name = Some (ProjectionObject p)"
  by (auto simp: getProperty_def putProperty_def inherited_def ownOfProjection_def
      ofObjectPrototype_def)

lemma putProperty_other:
  "name \<noteq> ''__proto__'' \<Longrightarrow> putProperty s name p = s\<lparr>projCache := (projCache s)(name \<mapsto> p)\<rparr>"
  by (simp add: putProperty_def)

lemma putProperty_proto:
  "projCache s ''__proto__'' = None \<Longrightarrow> putProperty s ''__proto__'' p = s\<lparr>prototype := Some p\<rparr>"
  by (simp add: putProperty_def)

lemma requests_putProperty: "requests (putProperty s name p) = requests s"
  by (simp add: putProperty_def)

text \<open>
  The inherited names at work: on the empty cache \<^verbatim>\<open>toString\<close> reads as the function of
  \<^verbatim>\<open>Object.prototype\<close>, and after a projection has been assigned to \<^verbatim>\<open>__proto__\<close> the
  cache has no new key, but \<^verbatim>\<open>forward\<close> reads as the function of that projection.
\<close>

lemma get_toString: "get empty_state ''toString'' = Some (Builtin ''toString'')"
  by (simp add: get_def getProperty_def inherited_def ofObjectPrototype_def
      Object_prototype_functions_def empty_state_def)

lemma get_forward_after_proto:
  "projCache (putProperty empty_state ''__proto__'' p) = Map.empty
   \<and> get (putProperty empty_state ''__proto__'' p) ''forward'' = Some (FunctionObject (forward p))"
  by (simp add: get_def getProperty_def inherited_def ownOfProjection_def putProperty_def
      empty_state_def)

section \<open>The projection cache\<close>

lemma set'_Ready:
  "crsUri \<noteq> [] \<Longrightarrow> set' crsUri (Ready p) options s = (Inr p, putProperty s crsUri p)"
  by (simp add: set'_def)

lemma set'_Text:
  "crsUri \<noteq> [] \<Longrightarrow> str \<noteq> [] \<Longrightarrow>
   set' crsUri (Text str) options s = (Inl (ReferenceError ''proj4string is not defined''), s)"
  by (simp add: set'_def)

text \<open>
  A call of \<open>set'\<close> that fails leaves the state as it was, and a call for a string always
  fails.
\<close>

lemma set'_Inl: "set' crsUri proj options s = (Inl e, s') \<Longrightarrow> s' = s"
  by (cases proj) (auto simp: set'_def split: if_splits)

lemma set'_Text_Inl: "\<exists>e. set' crsUri (Text str) options s = (Inl e, s)"
  by (simp add: set'_def)

lemma set'_Text_not_Inr: "set' crsUri (Text str) options s \<noteq> (Inr p, s')"
  by (simp add: set'_def)

text \<open>
  C1 does not hold of the code. With the URI and the definition string of the module's own
  test of \<^verbatim>\<open>set\<close>, the call throws the \<^verbatim>\<open>ReferenceError\<close> for \<^verbatim>\<open>proj4string\<close>; nothing is
  parsed, nothing is stored, and \<open>get\<close> finds nothing under the URI afterwards.
\<close>

theorem set_Text_throws:
  "set' ''http://www.opengis.net/def/crs/EPSG/0/27700''
        (Text (''+proj=tmerc +lat_0=49 +lon_0=-2 +k=0.9996012717 +x_0=400000 +y_0=-100000 ''
               @ ''+ellps=airy +towgs84=446.448,-125.157,542.06,0.15,0.247,0.842,-20.489 ''
               @ ''+units=m +no_defs''))
        default_options (empty_state :: int State)
     = (Inl (ReferenceError ''proj4string is not defined''), empty_state)
   \<and> get (snd (set' ''http://www.opengis.net/def/crs/EPSG/0/27700''
        (Text (''+proj=tmerc +lat_0=49 +lon_0=-2 +k=0.9996012717 +x_0=400000 +y_0=-100000 ''
               @ ''+ellps=airy +towgs84=446.448,-125.157,542.06,0.15,0.247,0.842,-20.489 ''
               @ ''+units=m +no_defs''))
        default_options (empty_state :: int State)))
       ''http://www.opengis.net/def/crs/EPSG/0/27700'' = None"
proof -
  have "get (empty_state :: int State) (EPSG_PREFIX @ ''27700'') = None"
    by (simp add: get_def getProperty_EPSG empty_state_def)
  then have "get (empty_state :: int State) ''http://www.opengis.net/def/crs/EPSG/0/27700'' = None"
    by (simp add: EPSG_PREFIX_def ROOT_PREFIX_def)
  then show ?thesis by (simp add: set'_Text)
qed

text \<open>
  C8. For a non-empty URI and a ready-made projection \<open>p\<close>, \<open>set'\<close> returns \<open>p\<close> itself
  and stores \<open>p\<close> itself: \<open>get\<close> reads \<open>p\<close>, not its reversal, under the URI afterwards.
  The options make no difference, and no request is made. For every URI but
  \<^verbatim>\<open>__proto__\<close> the state afterwards is the state before with the own property for the
  URI set to \<open>p\<close>; for \<^verbatim>\<open>__proto__\<close>, where the cache has no own property of that name,
  \<open>p\<close> becomes the prototype of the cache.
\<close>

theorem set_Ready_stores:
  "uri \<noteq> [] \<Longrightarrow>
   fst (set' uri (Ready p) options s) = Inr p
   \<and> get (snd (set' uri (Ready p) options s)) uri = Some (ProjectionObject p)
   \<and> set' uri (Ready p) options s = set' uri (Ready p) options2 s
   \<and> requests (snd (set' uri (Ready p) options s)) = requests s
   \<and> (uri \<noteq> ''__proto__'' \<longrightarrow>
        snd (set' uri (Ready p) options s) = s\<lparr>projCache := (projCache s)(uri \<mapsto> p)\<rparr>)
   \<and> (uri = ''__proto__'' \<and> projCache s uri = None \<longrightarrow>
        snd (set' uri (Ready p) options s) = s\<lparr>prototype := Some p\<rparr>)"
  by (auto simp: set'_Ready get_def getProperty_putProperty requests_putProperty
      putProperty_other putProperty_proto)

theorem set_Ready_stores_witness:
  "''urn:x'' \<noteq> []
   \<and> fst (set' ''urn:x'' (Ready sample_identity) \<lparr>opt_reverseAxes = True\<rparr> empty_state)
       = Inr sample_identity
   \<and> get (snd (set' ''urn:x'' (Ready sample_identity) \<lparr>opt_reverseAxes = True\<rparr> empty_state))
        ''urn:x'' = Some (ProjectionObject sample_identity)
   \<and> ''__proto__'' \<noteq> []
   \<and> get (snd (set' ''__proto__'' (Ready sample_identity) \<lparr>opt_reverseAxes = True\<rparr>
                  empty_state))
        ''__proto__'' = Some (ProjectionObject sample_identity)"
proof -
  have h: "''urn:x'' \<noteq> []" by simp
  have k: "''__proto__'' \<noteq> []" by simp
  from set_Ready_stores [OF h, of sample_identity "\<lparr>opt_reverseAxes = True\<rparr>" empty_state]
    set_Ready_stores [OF k, of sample_identity "\<lparr>opt_reverseAxes = True\<rparr>" empty_state]
  show ?thesis using h k by blast
qed

text \<open>The state after the module has been loaded.\<close>

lemma init_state:
  "init LONLAT =
     Inr \<lparr>projCache = [OGC_PREFIX @ ''1.3/CRS84'' \<mapsto> LONLAT,
                       EPSG_PREFIX @ decimal 4979 \<mapsto> reverseAxes LONLAT],
          prototype = None, requests = []\<rparr>"
  by (simp add: init_def set'_Ready putProperty_other OGC_PREFIX_def EPSG_PREFIX_def
      ROOT_PREFIX_def empty_state_def)

lemma entry_EPSG4979_reverseAxes:
  "entry_EPSG4979 LONLAT = Some (ProjectionObject (reverseAxes LONLAT))"
  by (simp add: entry_EPSG4979_def init_state get_def getProperty_own)

lemma EPSG4979_text:
  "EPSG_PREFIX @ decimal 4979 = ''http://www.opengis.net/def/crs/EPSG/0/4979''"
  by (simp add: decimal_4979 EPSG_PREFIX_def ROOT_PREFIX_def)

text \<open>
  C6, as stated, fails: it needs the projection that \<^verbatim>\<open>proj4\<close> built for WGS84 to return
  every pair unchanged. With \<open>sample_degrees\<close>, which differs from the identity at latitude 3
  as the computation in doubles does, the entry for EPSG 4979 is the reversal of
  \<open>sample_degrees\<close>, and it maps \<open>[0, 3]\<close> forward to \<open>[3 + 1 / 2 ^ 51, 0]\<close>, not to \<open>[3, 0]\<close>.
\<close>

theorem preseeded_EPSG4979_counterexample:
  "entry_EPSG4979 sample_degrees = Some (ProjectionObject (reverseAxes sample_degrees))
   \<and> forward (reverseAxes sample_degrees) [Num 0, Num 3] = [Num (3 + 1 / 2 ^ 51), Num 0]
   \<and> forward (reverseAxes sample_degrees) [Num 0, Num 3] \<noteq> [Num 3, Num 0]"
  by (simp add: entry_EPSG4979_reverseAxes forward_reverseAxes sample_degrees_def)

text \<open>
  C6, amended. Loading the module succeeds without any request, and the entry under
  \<^verbatim>\<open>http://www.opengis.net/def/crs/EPSG/0/4979\<close> is the reversal of the projection
  \<open>LONLAT\<close> that \<^verbatim>\<open>proj4\<close> built for WGS84: its forward function returns the reversal of
  what \<open>LONLAT\<close>'s forward function returns, and its inverse function at \<open>[lat, lon]\<close>
  returns what \<open>LONLAT\<close>'s inverse function returns at \<open>[lon, lat]\<close>. So the entry maps
  \<open>[lon, lat]\<close> forward to \<open>[lat, lon]\<close> at every pair that \<open>LONLAT\<close>'s forward function
  returns unchanged, and \<open>[lat, lon]\<close> back to \<open>[lon, lat]\<close> at every pair that \<open>LONLAT\<close>'s
  inverse function returns unchanged.
\<close>

theorem preseeded_EPSG4979:
  "EPSG_PREFIX @ decimal 4979 = ''http://www.opengis.net/def/crs/EPSG/0/4979''
   \<and> (\<exists>s. init LONLAT = Inr s \<and> requests s = []
          \<and> get s ''http://www.opengis.net/def/crs/EPSG/0/4979''
              = Some (ProjectionObject (reverseAxes LONLAT)))
   \<and> entry_EPSG4979 LONLAT = Some (ProjectionObject (reverseAxes LONLAT))
   \<and> forward (reverseAxes LONLAT) [lon, lat] = rev (forward LONLAT [lon, lat])
   \<and> inverse' (reverseAxes LONLAT) [lat, lon] = inverse' LONLAT [lon, lat]
   \<and> (forward LONLAT [lon, lat] = [lon, lat] \<longrightarrow>
        forward (reverseAxes LONLAT) [lon, lat] = [lat, lon])
   \<and> (inverse' LONLAT [lon, lat] = [lon, lat] \<longrightarrow>
        inverse' (reverseAxes LONLAT) [lat, lon] = [lon, lat])"
proof -
  let ?s = "\<lparr>projCache = [OGC_PREFIX @ ''1.3/CRS84'' \<mapsto> LONLAT,
                       EPSG_PREFIX @ decimal 4979 \<mapsto> reverseAxes LONLAT],
          prototype = None, requests = []\<rparr>"
  have "get ?s (EPSG_PREFIX @ decimal 4979) = Some (ProjectionObject (reverseAxes LONLAT))"
    by (simp add: get_def getProperty_own)
  then have g: "get ?s ''http://www.opengis.net/def/crs/EPSG/0/4979''
                  = Some (ProjectionObject (reverseAxes LONLAT))"
    by (simp only: EPSG4979_text)
  have "init LONLAT = Inr ?s \<and> requests ?s = []
          \<and> get ?s ''http://www.opengis.net/def/crs/EPSG/0/4979''
              = Some (ProjectionObject (reverseAxes LONLAT))"
    using g by (simp add: init_state)
  then have e: "\<exists>s. init LONLAT = Inr s \<and> requests s = []
          \<and> get s ''http://www.opengis.net/def/crs/EPSG/0/4979''
              = Some (ProjectionObject (reverseAxes LONLAT))"
    by blast
  show ?thesis
    using e EPSG4979_text
    by (simp add: entry_EPSG4979_reverseAxes forward_reverseAxes inverse_reverseAxes_pair)
qed

theorem preseeded_EPSG4979_witness:
  "forward sample_identity [Num (- 71), Num 41] = [Num (- 71), Num 41]
   \<and> inverse' sample_identity [Num (- 71), Num 41] = [Num (- 71), Num 41]
   \<and> entry_EPSG4979 sample_identity = Some (ProjectionObject (reverseAxes sample_identity))
   \<and> forward (reverseAxes sample_identity) [Num (- 71), Num 41] = [Num 41, Num (- 71)]
   \<and> inverse' (reverseAxes sample_identity) [Num 41, Num (- 71)] = [Num (- 71), Num 41]"
proof -
  have a: "forward sample_identity [Num (- 71), Num 41] = [Num (- 71), Num 41]"
    by (simp add: sample_identity_def)
  have b: "inverse' sample_identity [Num (- 71), Num 41] = [Num (- 71), Num 41]"
    by (simp add: sample_identity_def)
  from preseeded_EPSG4979 [of sample_identity "Num (- 71)" "Num 41"] a b
  show ?thesis by blast
qed

section \<open>The resolver\<close>

text \<open>For a name that the cache has, own or inherited, \<open>load\<close> reads it and does no more.\<close>

lemma load_has: "hasProperty s uri \<Longrightarrow> load fetch uri s = (Inr (getProperty s uri), s)"
  by (simp add: load_def)

text \<open>What \<open>load\<close> does for a URI with the EPSG prefix that is not in the cache.\<close>

lemma load_uncached:
  "projCache s (EPSG_PREFIX @ code) = None \<Longrightarrow>
   load fetch (EPSG_PREFIX @ code) s =
     (let url = ''http://epsg.io/'' @ code @ ''.proj4'';
          s1 = s\<lparr>requests := requests s @ [url]\<rparr>
      in case fetch url of
           Inl e \<Rightarrow> (Inl e, s1)
         | Inr response \<Rightarrow>
             if \<not> ok response
             then (Inl (Error (''HTTP response code: '' @ decimal (status response))), s1)
             else (case response_text response of
                     Inl e \<Rightarrow> (Inl e, s1)
                   | Inr proj4string \<Rightarrow>
                       (case set' (EPSG_PREFIX @ code) (Text proj4string)
                               \<lparr>opt_reverseAxes = in_needsAxesReordering (EPSG_PREFIX @ code)\<rparr> s1 of
                          (Inl e, s2) \<Rightarrow> (Inl e, s2)
                        | (Inr p, s2) \<Rightarrow> (Inr (Some (ProjectionObject p)), s2))))"
  by (simp add: load_def hasProperty_EPSG crsUriToEPSG_code del: append_assoc)

text \<open>
  A failing \<open>load\<close> has changed nothing of the cache object; a fulfilled \<open>load\<close>, in this
  revision, has read the cache and changed nothing at all.
\<close>

lemma load_Inl:
  "load fetch uri s = (Inl e, s') \<Longrightarrow> projCache s' = projCache s \<and> prototype s' = prototype s"
  using set'_Text_Inl [of uri _ _ "s\<lparr>requests := requests s @ [_]\<rparr>"]
  by (auto simp: load_def Let_def split: option.splits sum.splits if_splits prod.splits
      dest: set'_Inl)

lemma load_Inr:
  "load fetch uri s = (Inr v, s') \<Longrightarrow> s' = s \<and> v = getProperty s uri \<and> hasProperty s uri"
proof (cases "hasProperty s uri")
  case True
  assume "load fetch uri s = (Inr v, s')"
  with True show ?thesis by (auto simp: load_has)
next
  case False
  assume l: "load fetch uri s = (Inr v, s')"
  with False show ?thesis
    by (auto simp: load_def Let_def set'_Text_not_Inr
        split: sum.splits if_splits prod.splits)
qed

text \<open>
  C4. For a URI in the cache, \<open>load\<close> is fulfilled with the cached projection and leaves
  the state as it was: the cache is unchanged and no request has been added. So a second
  \<open>load\<close> of the URI, whatever the network would answer, gives the same again.
\<close>

theorem load_cached:
  "projCache s uri = Some p \<Longrightarrow>
   load fetch uri s = (Inr (Some (ProjectionObject p)), s)
   \<and> load fetch2 uri (snd (load fetch uri s)) = (Inr (Some (ProjectionObject p)), s)"
  by (simp add: load_has hasProperty_own getProperty_own)

theorem load_cached_witness:
  "projCache \<lparr>projCache = [''urn:x'' \<mapsto> sample_identity], prototype = None, requests = []\<rparr>
      ''urn:x'' = Some sample_identity
   \<and> load sample_not_found ''urn:x''
        \<lparr>projCache = [''urn:x'' \<mapsto> sample_identity], prototype = None, requests = []\<rparr>
     = (Inr (Some (ProjectionObject sample_identity)),
        \<lparr>projCache = [''urn:x'' \<mapsto> sample_identity], prototype = None, requests = []\<rparr>)"
  using load_cached
    [of "\<lparr>projCache = [''urn:x'' \<mapsto> sample_identity], prototype = None, requests = []\<rparr>"
      "''urn:x''" sample_identity sample_not_found sample_not_found]
  by simp

text \<open>
  C5. Whatever the network answers, a call of \<open>load\<close> that is fulfilled with a value
  leaves a cache in which \<open>get\<close> reads that value under the URI and which is unchanged at
  every other URI, and a call that fails, with whatever error, leaves the cache object, its
  own properties and its prototype, exactly as it was.
\<close>

theorem load_all_or_nothing:
  "load fetch uri s = (r, s') \<Longrightarrow>
   (case r of
      Inr v \<Rightarrow> v \<noteq> None \<and> get s' uri = v
               \<and> (\<forall>u. u \<noteq> uri \<longrightarrow> get s' u = get s u \<and> projCache s' u = projCache s u)
    | Inl e \<Rightarrow> projCache s' = projCache s \<and> prototype s' = prototype s)"
proof (cases r)
  case (Inl e)
  assume "load fetch uri s = (r, s')"
  with Inl show ?thesis by (auto dest: load_Inl)
next
  case (Inr v)
  assume "load fetch uri s = (r, s')"
  with Inr have "s' = s \<and> v = getProperty s uri \<and> hasProperty s uri"
    by (auto dest: load_Inr)
  with Inr show ?thesis by (simp add: get_def hasProperty_getProperty)
qed

theorem load_all_or_nothing_witness:
  "load sample_found ''http://www.opengis.net/def/crs/EPSG/0/4326'' (empty_state :: int State)
     = (Inl (ReferenceError ''proj4string is not defined''),
        \<lparr>projCache = Map.empty, prototype = None, requests = [''http://epsg.io/4326.proj4'']\<rparr>)
   \<and> projCache \<lparr>projCache = Map.empty :: string \<rightharpoonup> int Projection, prototype = None,
                 requests = [''http://epsg.io/4326.proj4'']\<rparr>
       = projCache (empty_state :: int State)"
proof -
  have "load sample_found (EPSG_PREFIX @ ''4326'') (empty_state :: int State)
          = (Inl (ReferenceError ''proj4string is not defined''),
             \<lparr>projCache = Map.empty, prototype = None,
              requests = [''http://epsg.io/4326.proj4'']\<rparr>)"
    by (simp add: load_uncached empty_state_def sample_found_def set'_def Let_def
        del: append_assoc)
  then have e: "load sample_found ''http://www.opengis.net/def/crs/EPSG/0/4326''
                  (empty_state :: int State)
          = (Inl (ReferenceError ''proj4string is not defined''),
             \<lparr>projCache = Map.empty, prototype = None,
              requests = [''http://epsg.io/4326.proj4'']\<rparr>)"
    by (simp add: EPSG_PREFIX_def ROOT_PREFIX_def)
  from load_all_or_nothing [OF e] e show ?thesis by simp
qed

text \<open>
  C7. For a URI with the EPSG prefix that is not in the cache, when the registry answers
  the request for the code with a response that is not \<^verbatim>\<open>ok\<close>, \<open>load\<close> fails with the
  error whose message carries the status of the response. Exactly one request, the one for
  the code, has been added, and the cache is unchanged.
\<close>

theorem load_http_error:
  assumes "projCache s (EPSG_PREFIX @ code) = None"
    and "fetch (''http://epsg.io/'' @ code @ ''.proj4'') = Inr response"
    and "\<not> ok response"
  shows "load fetch (EPSG_PREFIX @ code) s =
           (Inl (Error (''HTTP response code: '' @ decimal (status response))),
            s\<lparr>requests := requests s @ [''http://epsg.io/'' @ code @ ''.proj4'']\<rparr>)"
  using assms by (simp add: load_uncached Let_def del: append_assoc)

theorem load_http_error_witness:
  "projCache (empty_state :: int State) (EPSG_PREFIX @ ''99999999'') = None
   \<and> sample_not_found (''http://epsg.io/'' @ ''99999999'' @ ''.proj4'')
       = Inr \<lparr>ok = False, status = 404, response_text = Inr ''Not found''\<rparr>
   \<and> \<not> ok \<lparr>ok = False, status = 404, response_text = Inr ''Not found''\<rparr>
   \<and> load sample_not_found ''http://www.opengis.net/def/crs/EPSG/0/99999999''
        (empty_state :: int State)
       = (Inl (Error ''HTTP response code: 404''),
          \<lparr>projCache = Map.empty, prototype = None,
           requests = [''http://epsg.io/99999999.proj4'']\<rparr>)"
proof -
  have a: "projCache (empty_state :: int State) (EPSG_PREFIX @ ''99999999'') = None"
    by (simp add: empty_state_def)
  have b: "sample_not_found (''http://epsg.io/'' @ ''99999999'' @ ''.proj4'')
             = Inr \<lparr>ok = False, status = 404, response_text = Inr ''Not found''\<rparr>"
    by (simp add: sample_not_found_def)
  have c: "\<not> ok \<lparr>ok = False, status = 404, response_text = Inr ''Not found''\<rparr>"
    by simp
  have "load sample_not_found (EPSG_PREFIX @ ''99999999'') (empty_state :: int State)
          = (Inl (Error (''HTTP response code: '' @ decimal
                 (status \<lparr>ok = False, status = 404, response_text = Inr ''Not found''\<rparr>))),
             empty_state\<lparr>requests := requests (empty_state :: int State)
                @ [''http://epsg.io/'' @ ''99999999'' @ ''.proj4'']\<rparr>)"
    using a b c
      load_http_error [of "empty_state :: int State" "''99999999''" sample_not_found
        "\<lparr>ok = False, status = 404, response_text = Inr ''Not found''\<rparr>"]
    by blast
  then have "load sample_not_found ''http://www.opengis.net/def/crs/EPSG/0/99999999''
        (empty_state :: int State)
       = (Inl (Error ''HTTP response code: 404''),
          \<lparr>projCache = Map.empty, prototype = None,
           requests = [''http://epsg.io/99999999.proj4'']\<rparr>)"
    by (simp add: decimal_404 EPSG_PREFIX_def ROOT_PREFIX_def empty_state_def)
  with a b c show ?thesis by blast
qed

text \<open>
  The inherited names in \<open>load\<close>: \<^verbatim>\<open>toString\<close> is answered from \<^verbatim>\<open>Object.prototype\<close>,
  without a request and without an error.
\<close>

lemma load_toString:
  "load fetch ''toString'' empty_state = (Inr (Some (Builtin ''toString'')), empty_state)"
  using get_toString
  by (simp add: load_has hasProperty_def Object_prototype_functions_def get_def)

end
